theory Spec2Isabelle
  imports Main "HOL-Library.Sublist" "HOL-Library.Char_ord" "HOL-Library.List_Lexorder"
begin

section \<open>Data model\<close>

text \<open>
  Go strings and byte slices are byte sequences: \<open>string\<close> (a \<open>char\<close> is one byte).
  A Go \<open>error\<close> value is used by the provider only through its message (it is returned,
  or rendered with the verb \<open>%s\<close>), so an error is modelled by its message and the
  \<open>nil\<close> error by \<open>None\<close>. A Go result pair \<open>(v, err)\<close> is a pair
  \<open>(v, err)\<close> with \<open>err :: error option\<close>, so that \<open>return "", err\<close> with a
  \<open>nil\<close> error stays visible.
\<close>

type_synonym error = string

text \<open>The fields of \<open>url.URL\<close> (package net/url); \<open>User\<close> is a pointer.\<close>

record Userinfo =
  username :: string
  password :: string
  passwordSet :: bool

record URL =
  Scheme :: string
  Opaque :: string
  User :: "Userinfo option"
  Host :: string
  Path :: string
  RawPath :: string
  ForceQuery :: bool
  RawQuery :: string
  Fragment :: string

text \<open>
  \<open>provider_data.go\<close>: the four URLs are pointers (\<open>*url.URL\<close>), \<open>None\<close> is the
  \<open>nil\<close> pointer.
\<close>

record ProviderData =
  ProviderName :: string
  ClientID :: string
  ClientSecret :: string
  LoginUrl :: "URL option"
  RedeemUrl :: "URL option"
  ProfileUrl :: "URL option"
  ValidateUrl :: "URL option"
  Scope :: string

text \<open>
  \<open>github.go\<close>, lines 13 to 17. The embedded \<open>*ProviderData\<close> is the field
  \<open>ProviderData\<close>; Go's promoted \<open>p.Scope\<close> is \<open>Scope (ProviderData p)\<close>. The only
  constructor, \<open>NewGitHubProvider\<close>, stores a pointer that it has already dereferenced,
  so the embedded pointer of a provider is never \<open>nil\<close>.
\<close>

record GitHubProvider =
  ProviderData :: ProviderData
  Org :: string
  Team :: string

text \<open>A run-time panic of the Go program.\<close>

datatype panic = NilPointerDereference

section \<open>Construction and configuration\<close>

text \<open>The composite literal \<open>&url.URL{Scheme: s, Host: h, Path: p}\<close>: every other field zero.\<close>

definition url_literal :: "string \<Rightarrow> string \<Rightarrow> string \<Rightarrow> URL" where
  "url_literal s h p =
     \<lparr>Scheme = s, Opaque = [], User = None, Host = h, Path = p, RawPath = [],
      ForceQuery = False, RawQuery = [], Fragment = []\<rparr>"

text \<open>
  \<open>NewGitHubProvider\<close>, lines 19 to 46. The method \<open>(*url.URL).String\<close> belongs to the
  library and is the parameter \<open>String\<close>; it reads the fields of its receiver, so the
  call on a \<open>nil\<close> pointer panics. The three tests run in the order of the source, each
  on the record as the earlier assignments left it.
\<close>

definition NewGitHubProvider :: "(URL \<Rightarrow> string) \<Rightarrow> ProviderData \<Rightarrow> panic + GitHubProvider" where
  "NewGitHubProvider String p0 =
     (let p1 = p0\<lparr>ProviderName := ''GitHub''\<rparr> in
      (case LoginUrl p1 of
         None \<Rightarrow> Inl NilPointerDereference
       | Some l \<Rightarrow>
           (let p2 = (if String l = [] then
                        p1\<lparr>LoginUrl := Some (url_literal ''https'' ''github.com'' ''/login/oauth/authorize'')\<rparr>
                      else p1) in
            (case RedeemUrl p2 of
               None \<Rightarrow> Inl NilPointerDereference
             | Some r \<Rightarrow>
                 (let p3 = (if String r = [] then
                              p2\<lparr>RedeemUrl := Some (url_literal ''https'' ''github.com'' ''/login/oauth/access_token'')\<rparr>
                            else p2) in
                  (case ValidateUrl p3 of
                     None \<Rightarrow> Inl NilPointerDereference
                   | Some v \<Rightarrow>
                       (let p4 = (if String v = [] then
                                    p3\<lparr>ValidateUrl := Some (url_literal ''https'' ''api.github.com'' ''/user/emails'')\<rparr>
                                  else p3);
                            p5 = (if Scope p4 = [] then p4\<lparr>Scope := ''user:email''\<rparr> else p4)
                        in Inr \<lparr>ProviderData = p5, Org = [], Team = []\<rparr>)))))))"

text \<open>\<open>SetOrgTeam\<close>, lines 47 to 53.\<close>

definition SetOrgTeam :: "GitHubProvider \<Rightarrow> string \<Rightarrow> string \<Rightarrow> GitHubProvider" where
  "SetOrgTeam p org team =
     (let p1 = p\<lparr>Org := org\<rparr>;
          p2 = p1\<lparr>Team := team\<rparr>
      in if org \<noteq> [] \<or> team \<noteq> [] then
           p2\<lparr>ProviderData := (ProviderData p2)\<lparr>Scope := Scope (ProviderData p2) @ '' read:org''\<rparr>\<rparr>
         else p2)"

text \<open>
  The scope is a space-separated list of tokens (specification, section 3);
  \<open>scope_tokens\<close> reads the tokens of a scope string, \<open>split_spaces\<close> carrying the
  token read so far.
\<close>

fun split_spaces :: "string \<Rightarrow> string \<Rightarrow> string list" where
  "split_spaces cur [] = (if cur = [] then [] else [cur])"
| "split_spaces cur (c # cs) =
     (if c = CHR '' '' then (if cur = [] then [] else [cur]) @ split_spaces [] cs
      else split_spaces (cur @ [c]) cs)"

definition scope_tokens :: "string \<Rightarrow> string list" where
  "scope_tokens s = split_spaces [] s"

text \<open>
  A configuration for the examples: the zero \<open>url.URL{}\<close> behind each pointer, as
  \<open>url.Parse("")\<close> gives it, and a stand-in for \<open>String\<close> that is right on URLs with
  nothing to escape.
\<close>

definition zero_URL :: URL where
  "zero_URL = url_literal [] [] []"

definition unset_ProviderData :: ProviderData where
  "unset_ProviderData =
     \<lparr>ProviderName = [], ClientID = ''id'', ClientSecret = ''secret'',
      LoginUrl = Some zero_URL, RedeemUrl = Some zero_URL, ProfileUrl = Some zero_URL,
      ValidateUrl = Some zero_URL, Scope = []\<rparr>"

definition plain_String :: "URL \<Rightarrow> string" where
  "plain_String u =
     (if Scheme u = [] then [] else Scheme u @ '':'') @
     (if Opaque u \<noteq> [] then Opaque u
      else (if Scheme u \<noteq> [] \<or> Host u \<noteq> [] \<or> User u \<noteq> None then ''//'' @ Host u else []) @ Path u) @
     (if ForceQuery u \<or> RawQuery u \<noteq> [] then ''?'' @ RawQuery u else []) @
     (if Fragment u = [] then [] else ''#'' @ Fragment u)"

definition github_provider :: GitHubProvider where
  "github_provider =
     \<lparr>ProviderData =
        \<lparr>ProviderName = ''GitHub'', ClientID = ''id'', ClientSecret = ''secret'',
         LoginUrl = Some (url_literal ''https'' ''github.com'' ''/login/oauth/authorize''),
         RedeemUrl = Some (url_literal ''https'' ''github.com'' ''/login/oauth/access_token''),
         ProfileUrl = Some zero_URL,
         ValidateUrl = Some (url_literal ''https'' ''api.github.com'' ''/user/emails''),
         Scope = ''user:email''\<rparr>,
      Org = [], Team = []\<rparr>"

section \<open>Library functions the provider calls\<close>

text \<open>
  \<open>url.QueryEscape\<close>: a byte is copied when it is a letter, a digit or one of
  \<open>- _ . ~\<close>; a space becomes \<open>+\<close>; every other byte becomes \<open>%\<close> and its two
  upper-case hexadecimal digits.
\<close>

definition upperhex :: string where
  "upperhex = ''0123456789ABCDEF''"

definition shouldEscape :: "char \<Rightarrow> bool" where
  "shouldEscape c \<longleftrightarrow>
     \<not> (CHR ''a'' \<le> c \<and> c \<le> CHR ''z'' \<or> CHR ''A'' \<le> c \<and> c \<le> CHR ''Z'' \<or>
        CHR ''0'' \<le> c \<and> c \<le> CHR ''9'' \<or> c \<in> set ''-_.~'')"

definition escape_byte :: "char \<Rightarrow> string" where
  "escape_byte c =
     (if shouldEscape c then
        (if c = CHR '' '' then ''+''
         else [CHR ''%'', upperhex ! (of_char c div 16), upperhex ! (of_char c mod 16)])
      else [c])"

definition QueryEscape :: "string \<Rightarrow> string" where
  "QueryEscape s = concat (map escape_byte s)"

text \<open>
  \<open>url.Values\<close> is a map from a key to a list of values, here the list of its entries.
  \<open>Encode\<close> walks the keys in sorted order (bytewise, as \<open>sort.Strings\<close>) and writes
  \<open>key=value\<close> for every value, with \<open>&\<close> between two of them.
\<close>

type_synonym Values = "(string \<times> string list) list"

fun join_amp :: "string list \<Rightarrow> string" where
  "join_amp [] = []"
| "join_amp [x] = x"
| "join_amp (x # y # ys) = x @ ''&'' @ join_amp (y # ys)"

definition Encode :: "Values \<Rightarrow> string" where
  "Encode v =
     join_amp (concat (map (\<lambda>(k, vs). map (\<lambda>w. QueryEscape k @ ''='' @ QueryEscape w) vs)
                           (sort_key fst v)))"

text \<open>The verb \<open>%d\<close> of package fmt on an \<open>int\<close>: decimal digits, \<open>-\<close> before a negative number.\<close>

definition digit :: "nat \<Rightarrow> char" where
  "digit d = ''0123456789'' ! d"

fun digits :: "nat \<Rightarrow> string" where
  "digits n = (if n < 10 then [digit n] else digits (n div 10) @ [digit (n mod 10)])"

definition fmt_d :: "int \<Rightarrow> string" where
  "fmt_d i = (if i < 0 then CHR ''-'' # digits (nat (- i)) else digits (nat i))"

text \<open>
  The verb \<open>%q\<close> on a string is \<open>strconv.Quote\<close>: the string between double quotes, a
  double quote or a backslash inside it preceded by a backslash. The provider quotes
  endpoints only, which are printable ASCII (\<open>QueryEscape\<close> leaves nothing else), and
  \<open>strconv.Quote\<close> copies every other printable ASCII byte.
\<close>

definition quote_byte :: "char \<Rightarrow> string" where
  "quote_byte c = (if c = CHR 0x22 \<or> c = CHR 0x5C then [CHR 0x5C, c] else [c])"

definition fmt_q :: "string \<Rightarrow> string" where
  "fmt_q s = CHR 0x22 # concat (map quote_byte s) @ [CHR 0x22]"

text \<open>The message of \<open>fmt.Errorf("got %d from %q %s", resp.StatusCode, endpoint, body)\<close>.\<close>

definition Errorf_got :: "int \<Rightarrow> string \<Rightarrow> string \<Rightarrow> error" where
  "Errorf_got code endpoint body = ''got '' @ fmt_d code @ '' from '' @ fmt_q endpoint @ '' '' @ body"

text \<open>The message of \<open>fmt.Errorf("%s unmarshaling %s", err, body)\<close>.\<close>

definition Errorf_unmarshaling :: "error \<Rightarrow> string \<Rightarrow> error" where
  "Errorf_unmarshaling err body = err @ '' unmarshaling '' @ body"

text \<open>
  An error message carries a status code, an endpoint and a body when the decimal
  digits of the code, the endpoint and the body each stand in it as a run of
  consecutive bytes.
\<close>

definition carries :: "error \<Rightarrow> int \<Rightarrow> string \<Rightarrow> string \<Rightarrow> bool" where
  "carries msg code endpoint body \<longleftrightarrow>
     sublist (fmt_d code) msg \<and> sublist endpoint msg \<and> sublist body msg"

section \<open>Requests, responses and the environment\<close>

text \<open>
  A request as \<open>http.NewRequest("GET", urlStr, nil)\<close> builds it, with the headers set on
  it afterwards. A response is read through its status code and through what
  \<open>ioutil.ReadAll(resp.Body)\<close> returns: the body, or the error of the read.
\<close>

record Request =
  Method :: string
  urlStr :: string
  Header :: "(string \<times> string list) list"

record Response =
  StatusCode :: int
  Body :: "error + string"

text \<open>
  The anonymous struct types the three lists are decoded into (lines 58 to 60, 99 to 105,
  145 to 148). The nested struct of a team, the Go field \<open>Org\<close> with the JSON key
  \<open>organization\<close>, has the shape of an organization entry and is the field
  \<open>Organization\<close> here.
\<close>

record org_entry =
  Login :: string

record team_entry =
  Name :: string
  Slug :: string
  Organization :: org_entry

record email_entry =
  Email :: string
  Primary :: bool

text \<open>
  Modelled from the spec: the type \<open>SessionState\<close> is declared in a file of the
  repository that is not among the sources; the session "carries at minimum an
  accessToken string", the only field the provider reads.
\<close>

record SessionState =
  AccessToken :: string

text \<open>
  What lies outside the provider: \<open>http.DefaultClient\<close>, which answers a request with a
  transport error or a response, and \<open>json.Unmarshal\<close> at each of the three target
  types, which returns an error or the decoded list. One run of \<open>GetEmailAddress\<close>
  sends at most two requests, to different endpoints, so one answer for each request
  describes every run.
\<close>

record env =
  Do :: "Request \<Rightarrow> error + Response"
  Unmarshal_orgs :: "string \<Rightarrow> error + org_entry list"
  Unmarshal_teams :: "string \<Rightarrow> error + team_entry list"
  Unmarshal_emails :: "string \<Rightarrow> error + email_entry list"

text \<open>
  The effects of the provider, in the order they happen: a request handed to the HTTP
  client, a message handed to \<open>log.Printf\<close>. Every operation takes the trace so far and
  returns it extended.
\<close>

datatype event = Sent Request | Logged string

type_synonym trace = "event list"

definition sent :: "trace \<Rightarrow> Request list" where
  "sent tr = concat (map (\<lambda>e. case e of Sent r \<Rightarrow> [r] | Logged m \<Rightarrow> []) tr)"

section \<open>Organization membership: \<open>hasOrg\<close>\<close>

text \<open>Lines 62 to 69: the endpoint and the request.\<close>

definition hasOrg_endpoint :: "string \<Rightarrow> string" where
  "hasOrg_endpoint accessToken =
     ''https://api.github.com/user/orgs?'' @
     Encode [(''access_token'', [accessToken]), (''limit'', [''100''])]"

definition hasOrg_request :: "string \<Rightarrow> Request" where
  "hasOrg_request accessToken =
     \<lparr>Method = ''GET'', urlStr = hasOrg_endpoint accessToken,
      Header = [(''Accept'', [''application/vnd.github.moondragon+json''])]\<rparr>"

text \<open>Lines 88 to 93: the loop over the decoded organizations.\<close>

primrec hasOrg_range :: "GitHubProvider \<Rightarrow> org_entry list \<Rightarrow> bool \<times> error option" where
  "hasOrg_range p [] = (False, None)"
| "hasOrg_range p (org # orgs) =
     (if Org p = Login org then (True, None) else hasOrg_range p orgs)"

text \<open>\<open>hasOrg\<close>, lines 55 to 94.\<close>

definition hasOrg :: "env \<Rightarrow> GitHubProvider \<Rightarrow> string \<Rightarrow> trace \<Rightarrow> (bool \<times> error option) \<times> trace" where
  "hasOrg e p accessToken tr =
     (let endpoint = hasOrg_endpoint accessToken;
          req = hasOrg_request accessToken;
          tr1 = tr @ [Sent req]
      in case Do e req of
           Inl err \<Rightarrow> ((False, Some err), tr1)
         | Inr resp \<Rightarrow>
             (case Body resp of
                Inl err \<Rightarrow> ((False, Some err), tr1)
              | Inr body \<Rightarrow>
                  if StatusCode resp \<noteq> 200 then
                    ((False, Some (Errorf_got (StatusCode resp) endpoint body)), tr1)
                  else
                    (case Unmarshal_orgs e body of
                       Inl err \<Rightarrow> ((False, Some err), tr1)
                     | Inr orgs \<Rightarrow> (hasOrg_range p orgs, tr1))))"

section \<open>Organization and team membership: \<open>hasOrgAndTeam\<close>\<close>

text \<open>Lines 107 to 114: the endpoint and the request.\<close>

definition hasOrgAndTeam_endpoint :: "string \<Rightarrow> string" where
  "hasOrgAndTeam_endpoint accessToken =
     ''https://api.github.com/user/teams?'' @
     Encode [(''access_token'', [accessToken]), (''limit'', [''100''])]"

definition hasOrgAndTeam_request :: "string \<Rightarrow> Request" where
  "hasOrgAndTeam_request accessToken =
     \<lparr>Method = ''GET'', urlStr = hasOrgAndTeam_endpoint accessToken,
      Header = [(''Accept'', [''application/vnd.github.moondragon+json''])]\<rparr>"

text \<open>Lines 133 to 140: the loop over the decoded teams.\<close>

primrec hasOrgAndTeam_range :: "GitHubProvider \<Rightarrow> team_entry list \<Rightarrow> bool \<times> error option" where
  "hasOrgAndTeam_range p [] = (False, None)"
| "hasOrgAndTeam_range p (team # teams) =
     (if Org p = Login (Organization team) then
        (if Team p = [] \<or> Team p = Slug team then (True, None)
         else hasOrgAndTeam_range p teams)
      else hasOrgAndTeam_range p teams)"

text \<open>\<open>hasOrgAndTeam\<close>, lines 96 to 141.\<close>

definition hasOrgAndTeam :: "env \<Rightarrow> GitHubProvider \<Rightarrow> string \<Rightarrow> trace \<Rightarrow> (bool \<times> error option) \<times> trace" where
  "hasOrgAndTeam e p accessToken tr =
     (let endpoint = hasOrgAndTeam_endpoint accessToken;
          req = hasOrgAndTeam_request accessToken;
          tr1 = tr @ [Sent req]
      in case Do e req of
           Inl err \<Rightarrow> ((False, Some err), tr1)
         | Inr resp \<Rightarrow>
             (case Body resp of
                Inl err \<Rightarrow> ((False, Some err), tr1)
              | Inr body \<Rightarrow>
                  if StatusCode resp \<noteq> 200 then
                    ((False, Some (Errorf_got (StatusCode resp) endpoint body)), tr1)
                  else
                    (case Unmarshal_teams e body of
                       Inl err \<Rightarrow> ((False, Some (Errorf_unmarshaling err body)), tr1)
                     | Inr teams \<Rightarrow> (hasOrgAndTeam_range p teams, tr1))))"

section \<open>Email resolution: \<open>GetEmailAddress\<close>\<close>

text \<open>
  Lines 163 to 167: the endpoint, and the request of \<open>http.DefaultClient.Get\<close>, a GET
  with no header of the provider's.
\<close>

definition GetEmailAddress_endpoint :: "string \<Rightarrow> string" where
  "GetEmailAddress_endpoint accessToken =
     ''https://api.github.com/user/emails?'' @ Encode [(''access_token'', [accessToken])]"

definition GetEmailAddress_request :: "string \<Rightarrow> Request" where
  "GetEmailAddress_request accessToken =
     \<lparr>Method = ''GET'', urlStr = GetEmailAddress_endpoint accessToken, Header = []\<rparr>"

text \<open>Lines 187 to 193: the loop over the decoded emails, and the error after it.\<close>

primrec GetEmailAddress_range :: "email_entry list \<Rightarrow> string \<times> error option" where
  "GetEmailAddress_range [] = ([], Some ''no email address found'')"
| "GetEmailAddress_range (email # emails) =
     (if Primary email then (Email email, None) else GetEmailAddress_range emails)"

text \<open>
  Lines 163 to 193, the part of \<open>GetEmailAddress\<close> after the membership checks: every
  path through the checks that does not return continues here.
\<close>

definition GetEmailAddress_emails :: "env \<Rightarrow> SessionState \<Rightarrow> trace \<Rightarrow> (string \<times> error option) \<times> trace" where
  "GetEmailAddress_emails e s tr =
     (let endpoint = GetEmailAddress_endpoint (AccessToken s);
          req = GetEmailAddress_request (AccessToken s);
          tr1 = tr @ [Sent req]
      in case Do e req of
           Inl err \<Rightarrow> (([], Some err), tr1)
         | Inr resp \<Rightarrow>
             (case Body resp of
                Inl err \<Rightarrow> (([], Some err), tr1)
              | Inr body \<Rightarrow>
                  if StatusCode resp \<noteq> 200 then
                    (([], Some (Errorf_got (StatusCode resp) endpoint body)), tr1)
                  else
                    (let tr2 = tr1 @ [Logged (Errorf_got (StatusCode resp) endpoint body)]
                     in (case Unmarshal_emails e body of
                           Inl err \<Rightarrow> (([], Some (Errorf_unmarshaling err body)), tr2)
                         | Inr emails \<Rightarrow> (GetEmailAddress_range emails, tr2)))))"

text \<open>\<open>GetEmailAddress\<close>, lines 143 to 194.\<close>

definition GetEmailAddress :: "env \<Rightarrow> GitHubProvider \<Rightarrow> SessionState \<Rightarrow> trace \<Rightarrow> (string \<times> error option) \<times> trace" where
  "GetEmailAddress e p s tr =
     (if Org p \<noteq> [] then
        (if Team p \<noteq> [] then
           (case hasOrgAndTeam e p (AccessToken s) tr of
              ((ok, err), tr1) \<Rightarrow>
                if err \<noteq> None \<or> \<not> ok then (([], err), tr1)
                else GetEmailAddress_emails e s tr1)
         else
           (case hasOrg e p (AccessToken s) tr of
              ((ok, err), tr1) \<Rightarrow>
                if err \<noteq> None \<or> \<not> ok then (([], err), tr1)
                else GetEmailAddress_emails e s tr1))
      else GetEmailAddress_emails e s tr)"

text \<open>
  The membership checks of lines 151 to 161 let the run through to line 163, with the
  trace \<open>tr1\<close>: no check is configured, or the configured check returns true and no
  error.
\<close>

definition membership_passed :: "env \<Rightarrow> GitHubProvider \<Rightarrow> SessionState \<Rightarrow> trace \<Rightarrow> trace \<Rightarrow> bool" where
  "membership_passed e p s tr tr1 \<longleftrightarrow>
     (if Org p \<noteq> [] then
        (if Team p \<noteq> [] then hasOrgAndTeam e p (AccessToken s) tr = ((True, None), tr1)
         else hasOrg e p (AccessToken s) tr = ((True, None), tr1))
      else tr1 = tr)"

section \<open>An environment for the examples\<close>

text \<open>
  The session of the examples carries the token \<open>tok\<close>. The environment answers the
  three endpoints of that token with the responses it is given and refuses every other
  request; its decoders know the bodies of the examples, and report the error of
  \<open>json.Unmarshal\<close> on a truncated document for any other body.
\<close>

definition example_session :: SessionState where
  "example_session = \<lparr>AccessToken = ''tok''\<rparr>"

definition ok_response :: "string \<Rightarrow> Response" where
  "ok_response body = \<lparr>StatusCode = 200, Body = Inr body\<rparr>"

definition orgs_body :: string where
  "orgs_body = ''[{\"login\":\"acme\"},{\"login\":\"Widgets\"}]''"

definition teams_body :: string where
  "teams_body = ''[{\"name\":\"infra\",\"slug\":\"ops\",\"organization\":{\"login\":\"acme\"}}]''"

definition emails_body :: string where
  "emails_body = ''[{\"email\":\"a@x.com\",\"primary\":false},{\"email\":\"b@x.com\",\"primary\":true},{\"email\":\"c@x.com\",\"primary\":true}]''"

definition secondary_emails_body :: string where
  "secondary_emails_body = ''[{\"email\":\"a@x.com\",\"primary\":false},{\"email\":\"d@x.com\",\"primary\":false}]''"

definition example_Unmarshal_orgs :: "string \<Rightarrow> error + org_entry list" where
  "example_Unmarshal_orgs b =
     (if b = orgs_body then Inr [\<lparr>Login = ''acme''\<rparr>, \<lparr>Login = ''Widgets''\<rparr>]
      else if b = ''[]'' then Inr []
      else Inl ''unexpected end of JSON input'')"

definition example_Unmarshal_teams :: "string \<Rightarrow> error + team_entry list" where
  "example_Unmarshal_teams b =
     (if b = teams_body then
        Inr [\<lparr>Name = ''infra'', Slug = ''ops'', Organization = \<lparr>Login = ''acme''\<rparr>\<rparr>]
      else if b = ''[]'' then Inr []
      else Inl ''unexpected end of JSON input'')"

definition example_Unmarshal_emails :: "string \<Rightarrow> error + email_entry list" where
  "example_Unmarshal_emails b =
     (if b = emails_body then
        Inr [\<lparr>Email = ''a@x.com'', Primary = False\<rparr>, \<lparr>Email = ''b@x.com'', Primary = True\<rparr>,
             \<lparr>Email = ''c@x.com'', Primary = True\<rparr>]
      else if b = secondary_emails_body then
        Inr [\<lparr>Email = ''a@x.com'', Primary = False\<rparr>, \<lparr>Email = ''d@x.com'', Primary = False\<rparr>]
      else if b = ''[]'' then Inr []
      else Inl ''unexpected end of JSON input'')"

definition example_env :: "Response \<Rightarrow> Response \<Rightarrow> Response \<Rightarrow> env" where
  "example_env orgs teams emails =
     \<lparr>Do = (\<lambda>req.
        if urlStr req = ''https://api.github.com/user/orgs?access_token=tok&limit=100'' then Inr orgs
        else if urlStr req = ''https://api.github.com/user/teams?access_token=tok&limit=100'' then Inr teams
        else if urlStr req = ''https://api.github.com/user/emails?access_token=tok'' then Inr emails
        else Inl ''dial tcp: connection refused''),
      Unmarshal_orgs = example_Unmarshal_orgs,
      Unmarshal_teams = example_Unmarshal_teams,
      Unmarshal_emails = example_Unmarshal_emails\<rparr>"

definition not_found :: Response where
  "not_found = \<lparr>StatusCode = 404, Body = Inr ''Not Found''\<rparr>"

definition unread :: Response where
  "unread = \<lparr>StatusCode = 404, Body = Inl ''unexpected EOF''\<rparr>"

definition truncated :: Response where
  "truncated = ok_response ''[''"

definition github_env :: env where
  "github_env = example_env (ok_response orgs_body) (ok_response teams_body) (ok_response emails_body)"

section \<open>Properties of construction and configuration\<close>

lemma NewGitHubProvider_nil:
  "LoginUrl p = None \<or> RedeemUrl p = None \<or> ValidateUrl p = None \<Longrightarrow>
     NewGitHubProvider String p = Inl NilPointerDereference"
  by (auto simp add: NewGitHubProvider_def Let_def split: option.splits)

text \<open>
  C6, as the specification states it: each of the four URLs that is unset is filled
  with a default. From the configuration with the four URLs and the scope unset, the
  provider is built with its login, redeem and validate URLs and its scope filled, and
  with its \<open>ProfileUrl\<close> still the zero URL, whose \<open>String\<close> is empty: the profile
  URL stays unset.
\<close>

theorem NewGitHubProvider_profile_counterexample:
  "NewGitHubProvider plain_String unset_ProviderData = Inr github_provider
   \<and> ProfileUrl (ProviderData github_provider) = Some zero_URL
   \<and> plain_String zero_URL = []"
  by (simp add: NewGitHubProvider_def unset_ProviderData_def github_provider_def zero_URL_def
      url_literal_def plain_String_def)

text \<open>
  C6, amended: for a configuration whose \<open>LoginUrl\<close>, \<open>RedeemUrl\<close> and
  \<open>ValidateUrl\<close> pointers are not \<open>nil\<close>, \<open>NewGitHubProvider\<close> returns a provider
  with empty \<open>Org\<close> and \<open>Team\<close> over the same configuration, in which each of these
  three URLs is its default (\<open>https://github.com/login/oauth/authorize\<close>,
  \<open>https://github.com/login/oauth/access_token\<close>,
  \<open>https://api.github.com/user/emails\<close>) when its \<open>String\<close> was empty and is
  unchanged otherwise, the scope is \<open>user:email\<close> when it was empty and is unchanged
  otherwise, the name is \<open>GitHub\<close>, and \<open>ProfileUrl\<close>, which has no default, the
  client identifier and the client secret are unchanged.
\<close>

theorem NewGitHubProvider_defaults:
  assumes "LoginUrl p = Some l" and "RedeemUrl p = Some r" and "ValidateUrl p = Some v"
  shows "NewGitHubProvider String p =
           Inr \<lparr>ProviderData =
                  \<lparr>ProviderName = ''GitHub'', ClientID = ClientID p, ClientSecret = ClientSecret p,
                   LoginUrl = Some (if String l = [] then
                                      url_literal ''https'' ''github.com'' ''/login/oauth/authorize''
                                    else l),
                   RedeemUrl = Some (if String r = [] then
                                       url_literal ''https'' ''github.com'' ''/login/oauth/access_token''
                                     else r),
                   ProfileUrl = ProfileUrl p,
                   ValidateUrl = Some (if String v = [] then
                                         url_literal ''https'' ''api.github.com'' ''/user/emails''
                                       else v),
                   Scope = (if Scope p = [] then ''user:email'' else Scope p)\<rparr>,
                 Org = [], Team = []\<rparr>"
  using assms by (cases p) (simp add: NewGitHubProvider_def)

theorem NewGitHubProvider_defaults_witness:
  "NewGitHubProvider plain_String
     (unset_ProviderData
        \<lparr>LoginUrl := Some (url_literal ''https'' ''ghe.example.com'' ''/login/oauth/authorize''),
         ProfileUrl := None, Scope := ''user''\<rparr>) =
   Inr \<lparr>ProviderData =
          \<lparr>ProviderName = ''GitHub'', ClientID = ''id'', ClientSecret = ''secret'',
           LoginUrl = Some (url_literal ''https'' ''ghe.example.com'' ''/login/oauth/authorize''),
           RedeemUrl = Some (url_literal ''https'' ''github.com'' ''/login/oauth/access_token''),
           ProfileUrl = None,
           ValidateUrl = Some (url_literal ''https'' ''api.github.com'' ''/user/emails''),
           Scope = ''user''\<rparr>,
         Org = [], Team = []\<rparr>"
proof -
  let ?p = "unset_ProviderData
        \<lparr>LoginUrl := Some (url_literal ''https'' ''ghe.example.com'' ''/login/oauth/authorize''),
         ProfileUrl := None, Scope := ''user''\<rparr>"
  have l: "LoginUrl ?p = Some (url_literal ''https'' ''ghe.example.com'' ''/login/oauth/authorize'')"
    and r: "RedeemUrl ?p = Some zero_URL" and v: "ValidateUrl ?p = Some zero_URL"
    by (simp_all add: unset_ProviderData_def)
  have "plain_String (url_literal ''https'' ''ghe.example.com'' ''/login/oauth/authorize'') \<noteq> []"
    and "plain_String zero_URL = []"
    by (simp_all add: plain_String_def url_literal_def zero_URL_def)
  then show ?thesis
    using NewGitHubProvider_defaults [OF l r v, of plain_String]
    by (simp add: unset_ProviderData_def)
qed

lemma split_spaces_append_token:
  "split_spaces cur (s @ '' read:org'') = split_spaces cur s @ [''read:org'']"
  by (induction s arbitrary: cur) simp_all

lemma scope_tokens_append_token: "scope_tokens (s @ '' read:org'') = scope_tokens s @ [''read:org'']"
  by (simp add: scope_tokens_def split_spaces_append_token)

lemma SetOrgTeam_Scope:
  "Scope (ProviderData (SetOrgTeam p org team)) =
     (if org \<noteq> [] \<or> team \<noteq> [] then Scope (ProviderData p) @ '' read:org'' else Scope (ProviderData p))"
  by (simp add: SetOrgTeam_def)

text \<open>
  C7, as the specification states it: two calls of \<open>SetOrgTeam\<close> with non-empty arguments
  leave the token \<open>read:org\<close> at most once in the scope. The code appends on every call:
  from the default scope \<open>user:email\<close> two calls give
  \<open>user:email read:org read:org\<close>, where the token stands twice.
\<close>

theorem SetOrgTeam_twice_counterexample:
  "\<not> count_list (scope_tokens (Scope (ProviderData
        (SetOrgTeam (SetOrgTeam github_provider ''acme'' ''infra'') ''acme'' ''infra''))))
      ''read:org'' \<le> 1"
  by (simp add: SetOrgTeam_def github_provider_def scope_tokens_def)

text \<open>
  C7, amended: every call of \<open>SetOrgTeam\<close> with a non-empty organization or team appends
  \<open>" read:org"\<close> to the scope once more. After two such calls the scope is the scope
  before them followed by \<open>" read:org read:org"\<close>, and the token \<open>read:org\<close> occurs two
  times more than before.
\<close>

theorem SetOrgTeam_twice_appends_twice:
  assumes "org \<noteq> [] \<or> team \<noteq> []" and "org' \<noteq> [] \<or> team' \<noteq> []"
  shows "Scope (ProviderData (SetOrgTeam (SetOrgTeam p org team) org' team')) =
           Scope (ProviderData p) @ '' read:org read:org''
       \<and> count_list (scope_tokens (Scope (ProviderData (SetOrgTeam (SetOrgTeam p org team) org' team'))))
           ''read:org'' =
         count_list (scope_tokens (Scope (ProviderData p))) ''read:org'' + 2"
proof -
  have s: "Scope (ProviderData (SetOrgTeam (SetOrgTeam p org team) org' team')) =
             (Scope (ProviderData p) @ '' read:org'') @ '' read:org''"
    using assms by (simp add: SetOrgTeam_Scope)
  have "scope_tokens ((Scope (ProviderData p) @ '' read:org'') @ '' read:org'') =
          scope_tokens (Scope (ProviderData p) @ '' read:org'') @ [''read:org'']"
    by (rule scope_tokens_append_token)
  also have "\<dots> = (scope_tokens (Scope (ProviderData p)) @ [''read:org'']) @ [''read:org'']"
    by (simp only: scope_tokens_append_token)
  finally have t: "count_list (scope_tokens ((Scope (ProviderData p) @ '' read:org'') @ '' read:org''))
        ''read:org'' = count_list (scope_tokens (Scope (ProviderData p))) ''read:org'' + 2"
    by simp
  show ?thesis
  proof
    show "Scope (ProviderData (SetOrgTeam (SetOrgTeam p org team) org' team')) =
            Scope (ProviderData p) @ '' read:org read:org''"
      using s by simp
    show "count_list (scope_tokens (Scope (ProviderData (SetOrgTeam (SetOrgTeam p org team) org' team'))))
            ''read:org'' = count_list (scope_tokens (Scope (ProviderData p))) ''read:org'' + 2"
      using t by (simp only: s)
  qed
qed

theorem SetOrgTeam_twice_appends_twice_witness:
  "Scope (ProviderData (SetOrgTeam (SetOrgTeam github_provider ''acme'' []) ''acme'' ''infra'')) =
     ''user:email read:org read:org''
   \<and> count_list (scope_tokens (Scope (ProviderData
        (SetOrgTeam (SetOrgTeam github_provider ''acme'' []) ''acme'' ''infra'')))) ''read:org'' = 2"
  using SetOrgTeam_twice_appends_twice [of "''acme''" "[]" "''acme''" "''infra''" github_provider]
  by (simp add: github_provider_def scope_tokens_def)

section \<open>The endpoints\<close>

declare digits.simps [simp del]

lemma QueryEscape_tok: "QueryEscape ''tok'' = ''tok''"
  by (simp add: QueryEscape_def escape_byte_def shouldEscape_def)

lemma Encode_token_limit:
  "Encode [(''access_token'', [t]), (''limit'', [''100''])] =
     ''access_token='' @ QueryEscape t @ ''&limit=100''"
  by (simp add: Encode_def QueryEscape_def escape_byte_def shouldEscape_def)

lemma Encode_token: "Encode [(''access_token'', [t])] = ''access_token='' @ QueryEscape t"
  by (simp add: Encode_def QueryEscape_def escape_byte_def shouldEscape_def)

lemma hasOrg_endpoint_tok:
  "hasOrg_endpoint ''tok'' = ''https://api.github.com/user/orgs?access_token=tok&limit=100''"
  by (simp add: hasOrg_endpoint_def Encode_token_limit QueryEscape_tok)

lemma hasOrgAndTeam_endpoint_tok:
  "hasOrgAndTeam_endpoint ''tok'' = ''https://api.github.com/user/teams?access_token=tok&limit=100''"
  by (simp add: hasOrgAndTeam_endpoint_def Encode_token_limit QueryEscape_tok)

lemma GetEmailAddress_endpoint_tok:
  "GetEmailAddress_endpoint ''tok'' = ''https://api.github.com/user/emails?access_token=tok''"
  by (simp add: GetEmailAddress_endpoint_def Encode_token QueryEscape_tok)

lemmas endpoints_tok = hasOrg_endpoint_tok hasOrgAndTeam_endpoint_tok GetEmailAddress_endpoint_tok

lemmas example_defs = example_env_def github_env_def ok_response_def example_session_def
  not_found_def truncated_def unread_def
  example_Unmarshal_orgs_def example_Unmarshal_teams_def example_Unmarshal_emails_def
  orgs_body_def teams_body_def emails_body_def secondary_emails_body_def
  hasOrg_request_def hasOrgAndTeam_request_def GetEmailAddress_request_def endpoints_tok

section \<open>Quoting an endpoint\<close>

lemma of_char_less_256: "(of_char c :: nat) < 256"
  by (metis of_char_mod_256 mod_less_divisor zero_less_numeral)

lemma upperhex_safe:
  assumes "k < 16"
  shows "upperhex ! k \<noteq> CHR 0x22 \<and> upperhex ! k \<noteq> CHR 0x5C"
proof -
  from assms have "upperhex ! k \<in> set upperhex"
    by (intro nth_mem) (simp add: upperhex_def)
  then show ?thesis
    by (auto simp add: upperhex_def)
qed

lemma escape_byte_safe:
  assumes "c \<in> set (escape_byte x)"
  shows "c \<noteq> CHR 0x22 \<and> c \<noteq> CHR 0x5C"
proof -
  have hi: "(of_char x :: nat) div 16 < 16" and lo: "(of_char x :: nat) mod 16 < 16"
    using of_char_less_256 [of x] by presburger+
  show ?thesis
  proof (cases "shouldEscape x")
    case True
    then show ?thesis
      using assms upperhex_safe [OF hi] upperhex_safe [OF lo]
      by (auto simp add: escape_byte_def split: if_splits)
  next
    case False
    then show ?thesis
      using assms by (auto simp add: escape_byte_def shouldEscape_def less_eq_char_def)
  qed
qed

lemma QueryEscape_safe: "c \<in> set (QueryEscape t) \<Longrightarrow> c \<noteq> CHR 0x22 \<and> c \<noteq> CHR 0x5C"
  using escape_byte_safe by (auto simp add: QueryEscape_def)

lemma fmt_q_safe:
  assumes "\<forall>c \<in> set s. c \<noteq> CHR 0x22 \<and> c \<noteq> CHR 0x5C"
  shows "fmt_q s = CHR 0x22 # s @ [CHR 0x22]"
proof -
  from assms have "concat (map quote_byte s) = s"
    by (induction s) (simp_all add: quote_byte_def)
  then show ?thesis by (simp add: fmt_q_def)
qed

lemma fmt_q_hasOrg_endpoint:
  "fmt_q (hasOrg_endpoint t) = CHR 0x22 # hasOrg_endpoint t @ [CHR 0x22]"
  by (rule fmt_q_safe) (auto simp add: hasOrg_endpoint_def Encode_token_limit dest: QueryEscape_safe)

lemma fmt_q_hasOrgAndTeam_endpoint:
  "fmt_q (hasOrgAndTeam_endpoint t) = CHR 0x22 # hasOrgAndTeam_endpoint t @ [CHR 0x22]"
  by (rule fmt_q_safe)
    (auto simp add: hasOrgAndTeam_endpoint_def Encode_token_limit dest: QueryEscape_safe)

lemma fmt_q_GetEmailAddress_endpoint:
  "fmt_q (GetEmailAddress_endpoint t) = CHR 0x22 # GetEmailAddress_endpoint t @ [CHR 0x22]"
  by (rule fmt_q_safe)
    (auto simp add: GetEmailAddress_endpoint_def Encode_token dest: QueryEscape_safe)

lemma Errorf_got_carries:
  assumes "fmt_q endpoint = CHR 0x22 # endpoint @ [CHR 0x22]"
  shows "carries (Errorf_got code endpoint body) code endpoint body"
proof -
  let ?m = "Errorf_got code endpoint body"
  have "?m = ''got '' @ fmt_d code @ ('' from '' @ fmt_q endpoint @ '' '' @ body)"
    by (simp add: Errorf_got_def)
  then have 1: "sublist (fmt_d code) ?m"
    by (simp only: sublist_appendI)
  have "?m = (''got '' @ fmt_d code @ '' from '' @ [CHR 0x22]) @ endpoint @ ([CHR 0x22] @ '' '' @ body)"
    by (simp add: Errorf_got_def assms)
  then have 2: "sublist endpoint ?m"
    by (simp only: sublist_appendI)
  have "?m = (''got '' @ fmt_d code @ '' from '' @ fmt_q endpoint @ '' '') @ body @ []"
    by (simp add: Errorf_got_def)
  then have 3: "sublist body ?m"
    by (simp only: sublist_appendI)
  from 1 2 3 show ?thesis by (simp add: carries_def)
qed

lemma fmt_d_404: "fmt_d 404 = ''404''"
  by code_simp

section \<open>Properties of \<open>hasOrg\<close>\<close>

lemma hasOrg_range_iff: "hasOrg_range p orgs = (\<exists>org \<in> set orgs. Org p = Login org, None)"
  by (induction orgs) auto

lemma hasOrg_decoded:
  assumes "Do e (hasOrg_request accessToken) = Inr resp" and "Body resp = Inr body"
    and "StatusCode resp = 200" and "Unmarshal_orgs e body = Inr orgs"
  shows "hasOrg e p accessToken tr = (hasOrg_range p orgs, tr @ [Sent (hasOrg_request accessToken)])"
  using assms by (simp add: hasOrg_def)

text \<open>
  C3: when the organizations request is answered with status 200 and the body decodes
  to the list \<open>orgs\<close>, \<open>hasOrg\<close> returns no error, and returns true exactly when the
  configured \<open>Org\<close> is equal, byte for byte, to the login of some entry of the list;
  so it returns false with no error when no entry matches.
\<close>

theorem hasOrg_true_iff_login:
  assumes "Do e (hasOrg_request accessToken) = Inr resp" and "Body resp = Inr body"
    and "StatusCode resp = 200" and "Unmarshal_orgs e body = Inr orgs"
  shows "fst (hasOrg e p accessToken tr) = (\<exists>org \<in> set orgs. Org p = Login org, None)"
  using assms by (simp add: hasOrg_decoded hasOrg_range_iff)

theorem hasOrg_true_iff_login_witness:
  "fst (hasOrg github_env (github_provider\<lparr>Org := ''Widgets''\<rparr>) ''tok'' []) = (True, None)
   \<and> fst (hasOrg github_env (github_provider\<lparr>Org := ''widgets''\<rparr>) ''tok'' []) = (False, None)"
proof -
  have d: "Do github_env (hasOrg_request ''tok'') = Inr (ok_response orgs_body)"
    by (simp add: example_defs)
  have b: "Body (ok_response orgs_body) = Inr orgs_body"
    and c: "StatusCode (ok_response orgs_body) = 200"
    by (simp_all add: ok_response_def)
  have u: "Unmarshal_orgs github_env orgs_body = Inr [\<lparr>Login = ''acme''\<rparr>, \<lparr>Login = ''Widgets''\<rparr>]"
    by (simp add: example_defs)
  show ?thesis
    using hasOrg_true_iff_login [OF d b c u, of "github_provider\<lparr>Org := ''Widgets''\<rparr>" "[]"]
      hasOrg_true_iff_login [OF d b c u, of "github_provider\<lparr>Org := ''widgets''\<rparr>" "[]"]
    by simp
qed

section \<open>Properties of \<open>hasOrgAndTeam\<close>\<close>

lemma hasOrgAndTeam_range_iff:
  "hasOrgAndTeam_range p teams =
     (\<exists>team \<in> set teams. Org p = Login (Organization team) \<and> (Team p = [] \<or> Team p = Slug team), None)"
  by (induction teams) auto

lemma hasOrgAndTeam_decoded:
  assumes "Do e (hasOrgAndTeam_request accessToken) = Inr resp" and "Body resp = Inr body"
    and "StatusCode resp = 200" and "Unmarshal_teams e body = Inr teams"
  shows "hasOrgAndTeam e p accessToken tr =
           (hasOrgAndTeam_range p teams, tr @ [Sent (hasOrgAndTeam_request accessToken)])"
  using assms by (simp add: hasOrgAndTeam_def)

lemma hasOrgAndTeam_trace:
  "snd (hasOrgAndTeam e p accessToken tr) = tr @ [Sent (hasOrgAndTeam_request accessToken)]"
  by (simp add: hasOrgAndTeam_def Let_def split: sum.splits)

lemma hasOrg_trace:
  "snd (hasOrg e p accessToken tr) = tr @ [Sent (hasOrg_request accessToken)]"
  by (simp add: hasOrg_def Let_def split: sum.splits)

text \<open>
  C4: when the teams request is answered with status 200 and the body decodes to the
  list \<open>teams\<close>, \<open>hasOrgAndTeam\<close> returns no error, and returns true exactly when some
  entry has the login of its nested organization equal to the configured \<open>Org\<close> and,
  moreover, the configured \<open>Team\<close> is empty or equal to the slug of that entry. The
  name of an entry takes no part in the test.
\<close>

theorem hasOrgAndTeam_true_iff_org_and_slug:
  assumes "Do e (hasOrgAndTeam_request accessToken) = Inr resp" and "Body resp = Inr body"
    and "StatusCode resp = 200" and "Unmarshal_teams e body = Inr teams"
  shows "fst (hasOrgAndTeam e p accessToken tr) =
           (\<exists>team \<in> set teams.
              Org p = Login (Organization team) \<and> (Team p = [] \<or> Team p = Slug team), None)"
  using assms by (simp add: hasOrgAndTeam_decoded hasOrgAndTeam_range_iff)

theorem hasOrgAndTeam_true_iff_org_and_slug_witness:
  "fst (hasOrgAndTeam github_env (github_provider\<lparr>Org := ''acme'', Team := ''ops''\<rparr>) ''tok'' []) = (True, None)
   \<and> fst (hasOrgAndTeam github_env (github_provider\<lparr>Org := ''acme'', Team := ''infra''\<rparr>) ''tok'' []) = (False, None)
   \<and> fst (hasOrgAndTeam github_env (github_provider\<lparr>Org := ''other'', Team := ''ops''\<rparr>) ''tok'' []) = (False, None)"
proof -
  have d: "Do github_env (hasOrgAndTeam_request ''tok'') = Inr (ok_response teams_body)"
    by (simp add: example_defs)
  have b: "Body (ok_response teams_body) = Inr teams_body"
    and c: "StatusCode (ok_response teams_body) = 200"
    by (simp_all add: ok_response_def)
  have u: "Unmarshal_teams github_env teams_body =
             Inr [\<lparr>Name = ''infra'', Slug = ''ops'', Organization = \<lparr>Login = ''acme''\<rparr>\<rparr>]"
    by (simp add: example_defs)
  show ?thesis
    using hasOrgAndTeam_true_iff_org_and_slug [OF d b c u,
        of "github_provider\<lparr>Org := ''acme'', Team := ''ops''\<rparr>" "[]"]
      hasOrgAndTeam_true_iff_org_and_slug [OF d b c u,
        of "github_provider\<lparr>Org := ''acme'', Team := ''infra''\<rparr>" "[]"]
      hasOrgAndTeam_true_iff_org_and_slug [OF d b c u,
        of "github_provider\<lparr>Org := ''other'', Team := ''ops''\<rparr>" "[]"]
    by simp
qed

section \<open>Properties of \<open>GetEmailAddress\<close>\<close>

lemma GetEmailAddress_passed:
  "membership_passed e p s tr tr1 \<Longrightarrow> GetEmailAddress e p s tr = GetEmailAddress_emails e s tr1"
  by (simp add: membership_passed_def GetEmailAddress_def split: if_splits)

lemma GetEmailAddress_emails_decoded:
  assumes "Do e (GetEmailAddress_request (AccessToken s)) = Inr resp" and "Body resp = Inr body"
    and "StatusCode resp = 200" and "Unmarshal_emails e body = Inr emails"
  shows "fst (GetEmailAddress_emails e s tr) = GetEmailAddress_range emails"
  using assms by (simp add: GetEmailAddress_emails_def Let_def)

lemma GetEmailAddress_range_first_primary:
  "\<forall>x \<in> set before. \<not> Primary x \<Longrightarrow> Primary email \<Longrightarrow>
     GetEmailAddress_range (before @ email # after) = (Email email, None)"
  by (induction before) simp_all

lemma GetEmailAddress_range_no_primary:
  "\<forall>x \<in> set emails. \<not> Primary x \<Longrightarrow>
     GetEmailAddress_range emails = ([], Some ''no email address found'')"
  by (induction emails) simp_all

lemma membership_passed_github_env:
  "membership_passed github_env (github_provider\<lparr>Org := ''acme''\<rparr>) example_session []
     [Sent (hasOrg_request ''tok'')]"
  by (simp add: membership_passed_def github_provider_def hasOrg_def example_defs)

text \<open>
  C1: when the membership checks let the run through, the email request is answered
  with status 200 and the body decodes to a list, \<open>GetEmailAddress\<close> returns, with no
  error, the email string of the first entry of the list, in the order of the list,
  whose primary flag is true: the entry \<open>email\<close> with no primary entry before it.
\<close>

theorem GetEmailAddress_first_primary:
  assumes "membership_passed e p s tr tr1"
    and "Do e (GetEmailAddress_request (AccessToken s)) = Inr resp" and "Body resp = Inr body"
    and "StatusCode resp = 200" and "Unmarshal_emails e body = Inr (before @ email # after)"
    and "\<forall>x \<in> set before. \<not> Primary x" and "Primary email"
  shows "fst (GetEmailAddress e p s tr) = (Email email, None)"
  using assms
  by (simp add: GetEmailAddress_passed GetEmailAddress_emails_decoded
      GetEmailAddress_range_first_primary)

theorem GetEmailAddress_first_primary_witness:
  "fst (GetEmailAddress github_env (github_provider\<lparr>Org := ''acme''\<rparr>) example_session []) =
     (''b@x.com'', None)"
proof -
  have d: "Do github_env (GetEmailAddress_request (AccessToken example_session)) =
             Inr (ok_response emails_body)"
    by (simp add: example_defs)
  have b: "Body (ok_response emails_body) = Inr emails_body"
    and c: "StatusCode (ok_response emails_body) = 200"
    by (simp_all add: ok_response_def)
  have u: "Unmarshal_emails github_env emails_body =
             Inr ([\<lparr>Email = ''a@x.com'', Primary = False\<rparr>] @ \<lparr>Email = ''b@x.com'', Primary = True\<rparr> #
                  [\<lparr>Email = ''c@x.com'', Primary = True\<rparr>])"
    by (simp add: example_defs)
  have n: "\<forall>x \<in> set [\<lparr>Email = ''a@x.com'', Primary = False\<rparr>]. \<not> Primary x"
    and t: "Primary \<lparr>Email = ''b@x.com'', Primary = True\<rparr>"
    by simp_all
  show ?thesis
    using GetEmailAddress_first_primary [OF membership_passed_github_env d b c u n t] by simp
qed

text \<open>
  C2: when the membership checks let the run through, the email request is answered
  with status 200 and the body decodes to a list with no entry whose primary flag is
  true, \<open>GetEmailAddress\<close> returns the empty string and the error
  \<open>no email address found\<close>, whatever the entries of the list and their number.
\<close>

theorem GetEmailAddress_no_primary:
  assumes "membership_passed e p s tr tr1"
    and "Do e (GetEmailAddress_request (AccessToken s)) = Inr resp" and "Body resp = Inr body"
    and "StatusCode resp = 200" and "Unmarshal_emails e body = Inr emails"
    and "\<forall>x \<in> set emails. \<not> Primary x"
  shows "fst (GetEmailAddress e p s tr) = ([], Some ''no email address found'')"
  using assms
  by (simp add: GetEmailAddress_passed GetEmailAddress_emails_decoded
      GetEmailAddress_range_no_primary)

theorem GetEmailAddress_no_primary_witness:
  "fst (GetEmailAddress
          (example_env (ok_response orgs_body) (ok_response teams_body) (ok_response secondary_emails_body))
          github_provider example_session []) = ([], Some ''no email address found'')
   \<and> fst (GetEmailAddress
          (example_env (ok_response orgs_body) (ok_response teams_body) (ok_response ''[]''))
          github_provider example_session []) = ([], Some ''no email address found'')"
proof -
  let ?e = "\<lambda>b. example_env (ok_response orgs_body) (ok_response teams_body) (ok_response b)"
  have m: "membership_passed (?e b) github_provider example_session [] []" for b
    by (simp add: membership_passed_def github_provider_def)
  have d: "Do (?e b) (GetEmailAddress_request (AccessToken example_session)) = Inr (ok_response b)" for b
    by (simp add: example_defs)
  have b: "Body (ok_response b) = Inr b" and c: "StatusCode (ok_response b) = 200" for b
    by (simp_all add: ok_response_def)
  have u: "Unmarshal_emails (?e secondary_emails_body) secondary_emails_body =
             Inr [\<lparr>Email = ''a@x.com'', Primary = False\<rparr>, \<lparr>Email = ''d@x.com'', Primary = False\<rparr>]"
    by (simp add: example_defs)
  have n: "\<forall>x \<in> set [\<lparr>Email = ''a@x.com'', Primary = False\<rparr>, \<lparr>Email = ''d@x.com'', Primary = False\<rparr>].
             \<not> Primary x"
    by simp
  have u0: "Unmarshal_emails (?e ''[]'') ''[]'' = Inr []"
    by (simp add: example_defs)
  have n0: "\<forall>x \<in> set ([] :: email_entry list). \<not> Primary x"
    by simp
  show ?thesis
    using GetEmailAddress_no_primary [OF m d b c u n] GetEmailAddress_no_primary [OF m d b c u0 n0]
    by simp
qed

lemma teams_endpoint_not_emails:
  "hasOrgAndTeam_endpoint accessToken \<noteq> GetEmailAddress_endpoint t"
  by (simp add: hasOrgAndTeam_endpoint_def GetEmailAddress_endpoint_def)

lemma orgs_endpoint_not_emails:
  "hasOrg_endpoint accessToken \<noteq> GetEmailAddress_endpoint t"
  by (simp add: hasOrg_endpoint_def GetEmailAddress_endpoint_def)

lemma sent_append: "sent (tr @ tr') = sent tr @ sent tr'"
  by (simp add: sent_def)

lemma sent_Sent: "sent (Sent r # tr) = r # sent tr"
  by (simp add: sent_def)

lemma sent_Logged: "sent (Logged m # tr) = sent tr"
  by (simp add: sent_def)

lemma sent_Nil: "sent [] = []"
  by (simp add: sent_def)

lemma GetEmailAddress_emails_sent:
  "sent (snd (GetEmailAddress_emails e s tr)) = sent tr @ [GetEmailAddress_request (AccessToken s)]"
  by (simp add: GetEmailAddress_emails_def Let_def sent_append sent_Sent sent_Logged sent_Nil
      split: sum.splits)

text \<open>
  C5: when \<open>Org\<close> and \<open>Team\<close> are both non-empty and the team check returns false or
  an error, \<open>GetEmailAddress\<close> returns the empty string together with what the check
  returned as its error: the error of the check, or no error when the check returned
  false without one. The run has sent one request, the teams request, whose URL is not
  that of an email listing for any token: no email request is sent.
\<close>

theorem GetEmailAddress_team_check_failed:
  assumes "Org p \<noteq> []" and "Team p \<noteq> []"
    and "hasOrgAndTeam e p (AccessToken s) tr = ((ok, err), tr1)"
    and "\<not> ok \<or> err \<noteq> None"
  shows "GetEmailAddress e p s tr = (([], err), tr1)
       \<and> sent (snd (GetEmailAddress e p s tr)) = sent tr @ [hasOrgAndTeam_request (AccessToken s)]
       \<and> urlStr (hasOrgAndTeam_request (AccessToken s)) \<noteq> GetEmailAddress_endpoint t"
proof -
  have r: "GetEmailAddress e p s tr = (([], err), tr1)"
    using assms by (auto simp add: GetEmailAddress_def)
  have "tr1 = tr @ [Sent (hasOrgAndTeam_request (AccessToken s))]"
    using hasOrgAndTeam_trace [of e p "AccessToken s" tr] assms(3) by simp
  then have "sent tr1 = sent tr @ [hasOrgAndTeam_request (AccessToken s)]"
    by (simp add: sent_append sent_Sent sent_Nil)
  with r show ?thesis
    by (simp add: hasOrgAndTeam_request_def teams_endpoint_not_emails)
qed

theorem GetEmailAddress_team_check_failed_witness:
  "GetEmailAddress github_env (github_provider\<lparr>Org := ''acme'', Team := ''infra''\<rparr>) example_session [] =
     (([], None), [Sent (hasOrgAndTeam_request ''tok'')])
   \<and> GetEmailAddress (example_env (ok_response orgs_body) \<lparr>StatusCode = 403, Body = Inr ''Forbidden''\<rparr>
          (ok_response emails_body))
        (github_provider\<lparr>Org := ''acme'', Team := ''ops''\<rparr>) example_session [] =
     (([], Some (Errorf_got 403 (hasOrgAndTeam_endpoint ''tok'') ''Forbidden'')),
      [Sent (hasOrgAndTeam_request ''tok'')])"
proof -
  let ?p = "github_provider\<lparr>Org := ''acme'', Team := ''infra''\<rparr>"
  let ?q = "github_provider\<lparr>Org := ''acme'', Team := ''ops''\<rparr>"
  let ?e = "example_env (ok_response orgs_body) \<lparr>StatusCode = 403, Body = Inr ''Forbidden''\<rparr>
              (ok_response emails_body)"
  have o: "Org ?p \<noteq> []" "Org ?q \<noteq> []" and t: "Team ?p \<noteq> []" "Team ?q \<noteq> []"
    by simp_all
  have h: "hasOrgAndTeam github_env ?p (AccessToken example_session) [] =
             ((False, None), [Sent (hasOrgAndTeam_request ''tok'')])"
    by (simp add: hasOrgAndTeam_def example_defs)
  have k: "hasOrgAndTeam ?e ?q (AccessToken example_session) [] =
             ((False, Some (Errorf_got 403 (hasOrgAndTeam_endpoint ''tok'') ''Forbidden'')),
              [Sent (hasOrgAndTeam_request ''tok'')])"
    by (simp add: hasOrgAndTeam_def example_defs)
  have f: "\<not> False \<or> (None :: error option) \<noteq> None"
    and g: "\<not> False \<or> Some (Errorf_got 403 (hasOrgAndTeam_endpoint ''tok'') ''Forbidden'') \<noteq> None"
    by simp_all
  show ?thesis
    using GetEmailAddress_team_check_failed [OF o(1) t(1) h f]
      GetEmailAddress_team_check_failed [OF o(2) t(2) k g]
    by simp
qed

text \<open>
  C10: when \<open>Org\<close> is empty, \<open>GetEmailAddress\<close> runs no membership check, whatever
  \<open>Team\<close> is: the one request it sends is the email request, and its result and trace
  are those of the same provider with an empty \<open>Team\<close>. A provider configured by
  \<open>SetOrgTeam\<close> with an empty organization and a non-empty team is in this case: its
  \<open>Org\<close> is empty, its \<open>Team\<close> is the team given, and its scope has been extended by
  \<open>" read:org"\<close> all the same.
\<close>

theorem GetEmailAddress_team_without_org:
  "(Org p = [] \<longrightarrow>
      sent (snd (GetEmailAddress e p s tr)) = sent tr @ [GetEmailAddress_request (AccessToken s)]
    \<and> GetEmailAddress e p s tr = GetEmailAddress e (p\<lparr>Team := []\<rparr>) s tr)
   \<and> (team \<noteq> [] \<longrightarrow>
      Org (SetOrgTeam q [] team) = [] \<and> Team (SetOrgTeam q [] team) = team
    \<and> Scope (ProviderData (SetOrgTeam q [] team)) = Scope (ProviderData q) @ '' read:org'')"
  by (simp add: GetEmailAddress_def GetEmailAddress_emails_sent SetOrgTeam_def)

theorem GetEmailAddress_team_without_org_witness:
  "GetEmailAddress github_env (SetOrgTeam github_provider [] ''infra'') example_session [] =
     ((''b@x.com'', None),
      [Sent (GetEmailAddress_request ''tok''),
       Logged (Errorf_got 200 (GetEmailAddress_endpoint ''tok'') emails_body)])
   \<and> Team (SetOrgTeam github_provider [] ''infra'') = ''infra''
   \<and> Scope (ProviderData (SetOrgTeam github_provider [] ''infra'')) = ''user:email read:org''"
proof -
  have o: "Org (SetOrgTeam github_provider [] ''infra'') = []"
    by (simp add: SetOrgTeam_def)
  have n: "''infra'' \<noteq> []"
    by simp
  have r: "GetEmailAddress github_env ((SetOrgTeam github_provider [] ''infra'')\<lparr>Team := []\<rparr>)
             example_session [] =
           ((''b@x.com'', None),
            [Sent (GetEmailAddress_request ''tok''),
             Logged (Errorf_got 200 (GetEmailAddress_endpoint ''tok'') emails_body)])"
    by (simp add: GetEmailAddress_def GetEmailAddress_emails_def SetOrgTeam_def github_provider_def
        example_defs)
  show ?thesis
    using GetEmailAddress_team_without_org [of "SetOrgTeam github_provider [] ''infra''" github_env
        example_session "[]" "''infra''" github_provider] o n r
    by (simp add: github_provider_def)
qed

section \<open>Responses that are not a decoded list\<close>

lemma hasOrg_not_200:
  assumes "Do e (hasOrg_request accessToken) = Inr resp" and "Body resp = Inr body"
    and "StatusCode resp \<noteq> 200"
  shows "hasOrg e p accessToken tr =
           ((False, Some (Errorf_got (StatusCode resp) (hasOrg_endpoint accessToken) body)),
            tr @ [Sent (hasOrg_request accessToken)])"
  using assms by (simp add: hasOrg_def)

lemma hasOrgAndTeam_not_200:
  assumes "Do e (hasOrgAndTeam_request accessToken) = Inr resp" and "Body resp = Inr body"
    and "StatusCode resp \<noteq> 200"
  shows "hasOrgAndTeam e p accessToken tr =
           ((False, Some (Errorf_got (StatusCode resp) (hasOrgAndTeam_endpoint accessToken) body)),
            tr @ [Sent (hasOrgAndTeam_request accessToken)])"
  using assms by (simp add: hasOrgAndTeam_def)

lemma GetEmailAddress_emails_not_200:
  assumes "Do e (GetEmailAddress_request (AccessToken s)) = Inr resp" and "Body resp = Inr body"
    and "StatusCode resp \<noteq> 200"
  shows "GetEmailAddress_emails e s tr =
           (([], Some (Errorf_got (StatusCode resp) (GetEmailAddress_endpoint (AccessToken s)) body)),
            tr @ [Sent (GetEmailAddress_request (AccessToken s))])"
  using assms by (simp add: GetEmailAddress_emails_def)

lemma hasOrg_not_200_fails:
  assumes "Do e (hasOrg_request accessToken) = Inr resp" and "StatusCode resp \<noteq> 200"
  shows "\<exists>err. fst (hasOrg e p accessToken tr) = (False, Some err)"
  using assms by (cases "Body resp") (simp_all add: hasOrg_def)

lemma hasOrgAndTeam_not_200_fails:
  assumes "Do e (hasOrgAndTeam_request accessToken) = Inr resp" and "StatusCode resp \<noteq> 200"
  shows "\<exists>err. fst (hasOrgAndTeam e p accessToken tr) = (False, Some err)"
  using assms by (cases "Body resp") (simp_all add: hasOrgAndTeam_def)

lemma GetEmailAddress_emails_not_200_fails:
  assumes "Do e (GetEmailAddress_request (AccessToken s)) = Inr resp" and "StatusCode resp \<noteq> 200"
  shows "\<exists>err. fst (GetEmailAddress_emails e s tr) = ([], Some err)"
  using assms by (cases "Body resp") (simp_all add: GetEmailAddress_emails_def)

lemma hasOrg_read_error:
  assumes "Do e (hasOrg_request accessToken) = Inr resp" and "Body resp = Inl rerr"
  shows "hasOrg e p accessToken tr = ((False, Some rerr), tr @ [Sent (hasOrg_request accessToken)])"
  using assms by (simp add: hasOrg_def)

lemma hasOrgAndTeam_read_error:
  assumes "Do e (hasOrgAndTeam_request accessToken) = Inr resp" and "Body resp = Inl rerr"
  shows "hasOrgAndTeam e p accessToken tr =
           ((False, Some rerr), tr @ [Sent (hasOrgAndTeam_request accessToken)])"
  using assms by (simp add: hasOrgAndTeam_def)

lemma GetEmailAddress_emails_read_error:
  assumes "Do e (GetEmailAddress_request (AccessToken s)) = Inr resp" and "Body resp = Inl rerr"
  shows "GetEmailAddress_emails e s tr =
           (([], Some rerr), tr @ [Sent (GetEmailAddress_request (AccessToken s))])"
  using assms by (simp add: GetEmailAddress_emails_def)

text \<open>
  C8, as the specification states it: a response whose status is not 200 makes the
  call fail with an error message that carries the status code, the endpoint and the
  body. Each of the three calls reads the body before it tests the status and returns
  the error of a failed read as it is (lines 75 to 79, 120 to 124, 171 to 175). Every
  endpoint of the token \<open>tok\<close> answers with status 404 and a body whose read fails
  with \<open>unexpected EOF\<close>: \<open>hasOrg\<close>, \<open>hasOrgAndTeam\<close> and \<open>GetEmailAddress\<close> return
  that error, in which neither the status code 404 nor the endpoint stands.
\<close>

theorem not_200_unread_body_counterexample:
  "hasOrg (example_env unread unread unread) (github_provider\<lparr>Org := ''acme''\<rparr>) ''tok'' [] =
     ((False, Some ''unexpected EOF''), [Sent (hasOrg_request ''tok'')])
   \<and> hasOrgAndTeam (example_env unread unread unread)
        (github_provider\<lparr>Org := ''acme'', Team := ''ops''\<rparr>) ''tok'' [] =
     ((False, Some ''unexpected EOF''), [Sent (hasOrgAndTeam_request ''tok'')])
   \<and> GetEmailAddress (example_env unread unread unread) github_provider example_session [] =
     (([], Some ''unexpected EOF''), [Sent (GetEmailAddress_request ''tok'')])
   \<and> StatusCode unread = 404
   \<and> \<not> sublist (fmt_d 404) ''unexpected EOF''
   \<and> \<not> sublist (hasOrg_endpoint ''tok'') ''unexpected EOF''
   \<and> \<not> sublist (hasOrgAndTeam_endpoint ''tok'') ''unexpected EOF''
   \<and> \<not> sublist (GetEmailAddress_endpoint ''tok'') ''unexpected EOF''"
proof -
  have "\<not> sublist ''404'' ''unexpected EOF''"
    and "\<not> sublist ''https://api.github.com/user/orgs?access_token=tok&limit=100'' ''unexpected EOF''"
    and "\<not> sublist ''https://api.github.com/user/teams?access_token=tok&limit=100'' ''unexpected EOF''"
    and "\<not> sublist ''https://api.github.com/user/emails?access_token=tok'' ''unexpected EOF''"
    by code_simp+
  then show ?thesis
    by (simp add: hasOrg_def hasOrgAndTeam_def GetEmailAddress_def GetEmailAddress_emails_def
        github_provider_def fmt_d_404 example_defs)
qed

text \<open>
  C8, amended: a response whose status is not 200 makes each of the three calls fail:
  \<open>hasOrg\<close> and \<open>hasOrgAndTeam\<close> return false with an error, and \<open>GetEmailAddress\<close>,
  once the membership checks have let it through to the email request, returns the
  empty string with an error; the result is never a plain false or empty string
  without an error. When the body of the response has been read, as \<open>body\<close>, the error
  is \<open>got <status> from "<endpoint>" <body>\<close>, which carries the status code, the
  endpoint of the call and the body. When the read of the body fails, the error is the
  error of the read, as it is.
\<close>

theorem not_200_is_error:
  assumes "StatusCode resp \<noteq> 200"
  shows "(Do e (hasOrg_request accessToken) = Inr resp \<longrightarrow>
            (\<exists>err. fst (hasOrg e p accessToken tr) = (False, Some err))
          \<and> (Body resp = Inr body \<longrightarrow>
                hasOrg e p accessToken tr =
                  ((False, Some (Errorf_got (StatusCode resp) (hasOrg_endpoint accessToken) body)),
                   tr @ [Sent (hasOrg_request accessToken)])
              \<and> carries (Errorf_got (StatusCode resp) (hasOrg_endpoint accessToken) body)
                   (StatusCode resp) (hasOrg_endpoint accessToken) body)
          \<and> (Body resp = Inl rerr \<longrightarrow>
                hasOrg e p accessToken tr =
                  ((False, Some rerr), tr @ [Sent (hasOrg_request accessToken)])))
       \<and> (Do e (hasOrgAndTeam_request accessToken) = Inr resp \<longrightarrow>
            (\<exists>err. fst (hasOrgAndTeam e p accessToken tr) = (False, Some err))
          \<and> (Body resp = Inr body \<longrightarrow>
                hasOrgAndTeam e p accessToken tr =
                  ((False, Some (Errorf_got (StatusCode resp) (hasOrgAndTeam_endpoint accessToken) body)),
                   tr @ [Sent (hasOrgAndTeam_request accessToken)])
              \<and> carries (Errorf_got (StatusCode resp) (hasOrgAndTeam_endpoint accessToken) body)
                   (StatusCode resp) (hasOrgAndTeam_endpoint accessToken) body)
          \<and> (Body resp = Inl rerr \<longrightarrow>
                hasOrgAndTeam e p accessToken tr =
                  ((False, Some rerr), tr @ [Sent (hasOrgAndTeam_request accessToken)])))
       \<and> (membership_passed e p s tr tr1 \<and> Do e (GetEmailAddress_request (AccessToken s)) = Inr resp \<longrightarrow>
            (\<exists>err. fst (GetEmailAddress e p s tr) = ([], Some err))
          \<and> (Body resp = Inr body \<longrightarrow>
                GetEmailAddress e p s tr =
                  (([], Some (Errorf_got (StatusCode resp) (GetEmailAddress_endpoint (AccessToken s)) body)),
                   tr1 @ [Sent (GetEmailAddress_request (AccessToken s))])
              \<and> carries (Errorf_got (StatusCode resp) (GetEmailAddress_endpoint (AccessToken s)) body)
                   (StatusCode resp) (GetEmailAddress_endpoint (AccessToken s)) body)
          \<and> (Body resp = Inl rerr \<longrightarrow>
                GetEmailAddress e p s tr =
                  (([], Some rerr), tr1 @ [Sent (GetEmailAddress_request (AccessToken s))])))"
proof (intro conjI impI)
  assume "Do e (hasOrg_request accessToken) = Inr resp"
  then show "\<exists>err. fst (hasOrg e p accessToken tr) = (False, Some err)"
    using assms by (rule hasOrg_not_200_fails)
next
  assume "Do e (hasOrg_request accessToken) = Inr resp" and "Body resp = Inr body"
  then show "hasOrg e p accessToken tr =
      ((False, Some (Errorf_got (StatusCode resp) (hasOrg_endpoint accessToken) body)),
       tr @ [Sent (hasOrg_request accessToken)])"
    using assms by (rule hasOrg_not_200)
next
  assume "Do e (hasOrg_request accessToken) = Inr resp" and "Body resp = Inl rerr"
  then show "hasOrg e p accessToken tr =
      ((False, Some rerr), tr @ [Sent (hasOrg_request accessToken)])"
    by (rule hasOrg_read_error)
next
  assume "Do e (hasOrgAndTeam_request accessToken) = Inr resp"
  then show "\<exists>err. fst (hasOrgAndTeam e p accessToken tr) = (False, Some err)"
    using assms by (rule hasOrgAndTeam_not_200_fails)
next
  assume "Do e (hasOrgAndTeam_request accessToken) = Inr resp" and "Body resp = Inr body"
  then show "hasOrgAndTeam e p accessToken tr =
      ((False, Some (Errorf_got (StatusCode resp) (hasOrgAndTeam_endpoint accessToken) body)),
       tr @ [Sent (hasOrgAndTeam_request accessToken)])"
    using assms by (rule hasOrgAndTeam_not_200)
next
  assume "Do e (hasOrgAndTeam_request accessToken) = Inr resp" and "Body resp = Inl rerr"
  then show "hasOrgAndTeam e p accessToken tr =
      ((False, Some rerr), tr @ [Sent (hasOrgAndTeam_request accessToken)])"
    by (rule hasOrgAndTeam_read_error)
next
  assume a: "membership_passed e p s tr tr1 \<and> Do e (GetEmailAddress_request (AccessToken s)) = Inr resp"
  then have "GetEmailAddress e p s tr = GetEmailAddress_emails e s tr1"
    by (simp add: GetEmailAddress_passed)
  moreover have "\<exists>err. fst (GetEmailAddress_emails e s tr1) = ([], Some err)"
    using a assms by (intro GetEmailAddress_emails_not_200_fails) simp_all
  ultimately show "\<exists>err. fst (GetEmailAddress e p s tr) = ([], Some err)"
    by simp
next
  assume a: "membership_passed e p s tr tr1 \<and> Do e (GetEmailAddress_request (AccessToken s)) = Inr resp"
    and b: "Body resp = Inr body"
  then have "GetEmailAddress e p s tr = GetEmailAddress_emails e s tr1"
    by (simp add: GetEmailAddress_passed)
  also have "\<dots> =
      (([], Some (Errorf_got (StatusCode resp) (GetEmailAddress_endpoint (AccessToken s)) body)),
       tr1 @ [Sent (GetEmailAddress_request (AccessToken s))])"
    using a b assms by (intro GetEmailAddress_emails_not_200) simp_all
  finally show "GetEmailAddress e p s tr =
      (([], Some (Errorf_got (StatusCode resp) (GetEmailAddress_endpoint (AccessToken s)) body)),
       tr1 @ [Sent (GetEmailAddress_request (AccessToken s))])" .
next
  assume a: "membership_passed e p s tr tr1 \<and> Do e (GetEmailAddress_request (AccessToken s)) = Inr resp"
    and b: "Body resp = Inl rerr"
  then have "GetEmailAddress e p s tr = GetEmailAddress_emails e s tr1"
    by (simp add: GetEmailAddress_passed)
  also have "\<dots> = (([], Some rerr), tr1 @ [Sent (GetEmailAddress_request (AccessToken s))])"
    using a b by (intro GetEmailAddress_emails_read_error) simp_all
  finally show "GetEmailAddress e p s tr =
      (([], Some rerr), tr1 @ [Sent (GetEmailAddress_request (AccessToken s))])" .
qed (simp_all add: Errorf_got_carries fmt_q_hasOrg_endpoint fmt_q_hasOrgAndTeam_endpoint
    fmt_q_GetEmailAddress_endpoint)

theorem not_200_is_error_witness:
  "hasOrg (example_env not_found not_found not_found) (github_provider\<lparr>Org := ''acme''\<rparr>) ''tok'' [] =
     ((False, Some ''got 404 from \"https://api.github.com/user/orgs?access_token=tok&limit=100\" Not Found''),
      [Sent (hasOrg_request ''tok'')])
   \<and> hasOrgAndTeam (example_env not_found not_found not_found)
        (github_provider\<lparr>Org := ''acme''\<rparr>) ''tok'' [] =
     ((False, Some ''got 404 from \"https://api.github.com/user/teams?access_token=tok&limit=100\" Not Found''),
      [Sent (hasOrgAndTeam_request ''tok'')])
   \<and> GetEmailAddress (example_env (ok_response orgs_body) (ok_response teams_body) not_found)
        (github_provider\<lparr>Org := ''acme''\<rparr>) example_session [] =
     (([], Some ''got 404 from \"https://api.github.com/user/emails?access_token=tok\" Not Found''),
      [Sent (hasOrg_request ''tok''), Sent (GetEmailAddress_request ''tok'')])
   \<and> GetEmailAddress (example_env (ok_response orgs_body) (ok_response teams_body) unread)
        (github_provider\<lparr>Org := ''acme''\<rparr>) example_session [] =
     (([], Some ''unexpected EOF''),
      [Sent (hasOrg_request ''tok''), Sent (GetEmailAddress_request ''tok'')])"
proof -
  let ?e = "example_env not_found not_found not_found"
  let ?f = "example_env (ok_response orgs_body) (ok_response teams_body) not_found"
  let ?g = "example_env (ok_response orgs_body) (ok_response teams_body) unread"
  let ?p = "github_provider\<lparr>Org := ''acme''\<rparr>"
  have b: "Body not_found = Inr ''Not Found''" and c: "StatusCode not_found \<noteq> 200"
    by (simp_all add: not_found_def)
  have b': "Body unread = Inl ''unexpected EOF''" and c': "StatusCode unread \<noteq> 200"
    by (simp_all add: unread_def)
  have d1: "Do ?e (hasOrg_request ''tok'') = Inr not_found"
    and d2: "Do ?e (hasOrgAndTeam_request ''tok'') = Inr not_found"
    and d3: "Do ?f (GetEmailAddress_request (AccessToken example_session)) = Inr not_found"
    and d4: "Do ?g (GetEmailAddress_request (AccessToken example_session)) = Inr unread"
    by (simp_all add: example_env_def example_session_def hasOrg_request_def
        hasOrgAndTeam_request_def GetEmailAddress_request_def endpoints_tok)
  have m: "membership_passed ?f ?p example_session [] [Sent (hasOrg_request ''tok'')]"
    and m': "membership_passed ?g ?p example_session [] [Sent (hasOrg_request ''tok'')]"
    by (simp_all add: membership_passed_def github_provider_def hasOrg_def example_defs)
  have g: "Errorf_got (StatusCode not_found) (hasOrg_endpoint ''tok'') ''Not Found'' =
             ''got 404 from \"https://api.github.com/user/orgs?access_token=tok&limit=100\" Not Found''"
      "Errorf_got (StatusCode not_found) (hasOrgAndTeam_endpoint ''tok'') ''Not Found'' =
             ''got 404 from \"https://api.github.com/user/teams?access_token=tok&limit=100\" Not Found''"
      "Errorf_got (StatusCode not_found) (GetEmailAddress_endpoint ''tok'') ''Not Found'' =
             ''got 404 from \"https://api.github.com/user/emails?access_token=tok\" Not Found''"
    by (simp_all add: Errorf_got_def not_found_def fmt_d_404 fmt_q_def quote_byte_def endpoints_tok)
  show ?thesis
    using not_200_is_error [OF c, of ?e "''tok''" ?p "[]" "''Not Found''" "''unexpected EOF''"
        example_session "[]"]
      not_200_is_error [OF c, of ?f "''tok''" ?p "[]" "''Not Found''" "''unexpected EOF''"
        example_session "[Sent (hasOrg_request ''tok'')]"]
      not_200_is_error [OF c', of ?g "''tok''" ?p "[]" "''Not Found''" "''unexpected EOF''"
        example_session "[Sent (hasOrg_request ''tok'')]"]
      b b' d1 d2 d3 d4 m m' g
    by (simp add: example_session_def)
qed

text \<open>
  C9: the organizations request of the token \<open>tok\<close> is answered with status 200 and
  the truncated body \<open>[\<close>, on which \<open>json.Unmarshal\<close> reports
  \<open>unexpected end of JSON input\<close>. \<open>hasOrg\<close> returns that error as it is (line
  85), and the body does not stand in its message. On the same body \<open>hasOrgAndTeam\<close>
  (line 130) returns \<open>unexpected end of JSON input unmarshaling [\<close>, the error
  followed by the body.
\<close>

theorem hasOrg_unmarshal_error_omits_body:
  "hasOrg (example_env truncated truncated truncated) (github_provider\<lparr>Org := ''acme''\<rparr>) ''tok'' [] =
     ((False, Some ''unexpected end of JSON input''), [Sent (hasOrg_request ''tok'')])
   \<and> \<not> sublist ''['' ''unexpected end of JSON input''
   \<and> hasOrgAndTeam (example_env truncated truncated truncated)
        (github_provider\<lparr>Org := ''acme'', Team := ''ops''\<rparr>) ''tok'' [] =
     ((False, Some ''unexpected end of JSON input unmarshaling [''),
      [Sent (hasOrgAndTeam_request ''tok'')])"
proof -
  have "\<not> sublist ''['' ''unexpected end of JSON input''"
    by code_simp
  then show ?thesis
    by (simp add: hasOrg_def hasOrgAndTeam_def Errorf_unmarshaling_def example_defs)
qed

text \<open>
  \<open>GetEmailAddress\<close> on the same answers: with an organization and no team it hands
  on the error of \<open>hasOrg\<close>, without the body; with no organization it reaches the
  email request, whose decoding error (line 184) is followed by the body.
\<close>

lemma GetEmailAddress_unmarshal_examples:
  "GetEmailAddress (example_env truncated truncated truncated)
        (github_provider\<lparr>Org := ''acme''\<rparr>) example_session [] =
     (([], Some ''unexpected end of JSON input''), [Sent (hasOrg_request ''tok'')])
   \<and> fst (GetEmailAddress (example_env truncated truncated truncated) github_provider
        example_session []) =
     ([], Some ''unexpected end of JSON input unmarshaling ['')"
  by (simp add: hasOrg_def GetEmailAddress_def GetEmailAddress_emails_def
      Errorf_unmarshaling_def github_provider_def example_defs)

lemma hasOrgAndTeam_unmarshal_error:
  assumes "Do e (hasOrgAndTeam_request accessToken) = Inr resp" and "Body resp = Inr body"
    and "StatusCode resp = 200" and "Unmarshal_teams e body = Inl err"
  shows "fst (hasOrgAndTeam e p accessToken tr) = (False, Some (err @ '' unmarshaling '' @ body))"
  using assms by (simp add: hasOrgAndTeam_def Errorf_unmarshaling_def)

lemma GetEmailAddress_unmarshal_error:
  assumes "membership_passed e p s tr tr1"
    and "Do e (GetEmailAddress_request (AccessToken s)) = Inr resp" and "Body resp = Inr body"
    and "StatusCode resp = 200" and "Unmarshal_emails e body = Inl err"
  shows "fst (GetEmailAddress e p s tr) = ([], Some (err @ '' unmarshaling '' @ body))"
  using assms
  by (simp add: GetEmailAddress_passed GetEmailAddress_emails_def Errorf_unmarshaling_def)

lemma hasOrg_unmarshal_error:
  assumes "Do e (hasOrg_request accessToken) = Inr resp" and "Body resp = Inr body"
    and "StatusCode resp = 200" and "Unmarshal_orgs e body = Inl err"
  shows "fst (hasOrg e p accessToken tr) = (False, Some err)"
  using assms by (simp add: hasOrg_def)

end
